theory Spec2Isabelle
  imports Complex_Main
begin

section \<open>Data model\<close>

text \<open>
  Instants and durations are seconds since the epoch. The source computes with Python
  numbers (\<open>time.time()\<close> is a float); the model computes with exact reals, so
  rounding of floating-point arithmetic is outside the model.
\<close>

type_synonym instant = real

text \<open>
  Modelled from the spec: \<open>data/TriggerType.py\<close> is not among the sources; the four
  members are the ones the trigger classes pass to \<open>Trigger.__init__\<close>.
\<close>

datatype TriggerType = TIMESTAMP | INTERVAL | ONE_TIME | CRON

text \<open>
  Modelled from the spec: \<open>data/JobStatus.py\<close> is not among the sources; the four
  members are the ones \<open>Job.py\<close> reads and writes.
\<close>

datatype JobStatus = RUNNING | PAUSED | COMPLETED | REMOVED

datatype error = AttributeError | TypeError

text \<open>
  \<open>after_time: float = None\<close> followed by
  \<open>if after_time is None: after_time = time.time()\<close>: the reference time is the
  argument when one is given and the clock reading \<open>now\<close> otherwise.
\<close>

definition reference_time :: "instant \<Rightarrow> instant option \<Rightarrow> instant" where
  "reference_time now after_time = (case after_time of None \<Rightarrow> now | Some t \<Rightarrow> t)"


subsection \<open>TimestampTrigger\<close>

record TimestampTrigger =
  ts_timestamps :: "int list"
  ts_current_index :: nat

definition TimestampTrigger_init :: "int list \<Rightarrow> TimestampTrigger" where
  "TimestampTrigger_init timestamps =
     \<lparr> ts_timestamps = sort timestamps, ts_current_index = 0 \<rparr>"

text \<open>The \<open>while\<close> loop of \<open>get_next_run_time\<close>, on the trigger's state.\<close>

function ts_scan :: "real \<Rightarrow> TimestampTrigger \<Rightarrow> instant option \<times> TimestampTrigger" where
  "ts_scan after_time_ms tr =
     (if ts_current_index tr < length (ts_timestamps tr) then
        if real_of_int (ts_timestamps tr ! ts_current_index tr) > after_time_ms
        then (Some (real_of_int (ts_timestamps tr ! ts_current_index tr) / 1000), tr)
        else ts_scan after_time_ms (tr\<lparr>ts_current_index := ts_current_index tr + 1\<rparr>)
      else (None, tr))"
  by pat_completeness auto
termination
  by (relation "measure (\<lambda>(a, tr). length (ts_timestamps tr) - ts_current_index tr)") auto

declare ts_scan.simps [simp del]

definition TimestampTrigger_get_next_run_time ::
  "TimestampTrigger \<Rightarrow> instant \<Rightarrow> instant option \<Rightarrow> instant option \<times> TimestampTrigger" where
  "TimestampTrigger_get_next_run_time tr now after_time =
     ts_scan (reference_time now after_time * 1000) tr"

definition TimestampTrigger_is_finished :: "TimestampTrigger \<Rightarrow> bool" where
  "TimestampTrigger_is_finished tr \<longleftrightarrow> ts_current_index tr \<ge> length (ts_timestamps tr)"

definition TimestampTrigger_reset :: "TimestampTrigger \<Rightarrow> TimestampTrigger" where
  "TimestampTrigger_reset tr = tr\<lparr>ts_current_index := 0\<rparr>"


subsection \<open>IntervalTrigger\<close>

record IntervalTrigger =
  iv_interval_seconds :: real
  iv_max_runs :: "int option"
  iv_run_count :: int
  iv_start_time :: instant
  iv_next_run_time :: instant

text \<open>
  \<open>start_time or time.time()\<close>: Python's \<open>or\<close> takes the clock reading when the
  argument is \<open>None\<close> and also when it is zero. No argument is validated.
\<close>

definition IntervalTrigger_init ::
  "real \<Rightarrow> int option \<Rightarrow> instant option \<Rightarrow> instant \<Rightarrow> IntervalTrigger" where
  "IntervalTrigger_init interval_seconds max_runs start_time now =
     (let st = (case start_time of None \<Rightarrow> now | Some s \<Rightarrow> if s = 0 then now else s)
      in \<lparr> iv_interval_seconds = interval_seconds, iv_max_runs = max_runs,
           iv_run_count = 0, iv_start_time = st, iv_next_run_time = st \<rparr>)"

text \<open>
  \<open>while self.next_run_time <= after_time: self.next_run_time += self.interval_seconds\<close>.
  The loop need not end; \<open>None\<close> is the loop that never leaves.
\<close>

partial_function (option) iv_advance :: "instant \<Rightarrow> IntervalTrigger \<Rightarrow> IntervalTrigger option" where
  "iv_advance after_time tr =
     (if iv_next_run_time tr \<le> after_time
      then iv_advance after_time
             (tr\<lparr>iv_next_run_time := iv_next_run_time tr + iv_interval_seconds tr\<rparr>)
      else Some tr)"

definition IntervalTrigger_is_finished :: "IntervalTrigger \<Rightarrow> bool" where
  "IntervalTrigger_is_finished tr \<longleftrightarrow>
     (case iv_max_runs tr of None \<Rightarrow> False | Some m \<Rightarrow> iv_run_count tr \<ge> m)"

text \<open>The outer \<open>None\<close> is a call that does not return.\<close>

definition IntervalTrigger_get_next_run_time ::
  "IntervalTrigger \<Rightarrow> instant \<Rightarrow> instant option \<Rightarrow> (instant option \<times> IntervalTrigger) option" where
  "IntervalTrigger_get_next_run_time tr now after_time =
     (if (case iv_max_runs tr of None \<Rightarrow> False | Some m \<Rightarrow> iv_run_count tr \<ge> m)
      then Some (None, tr)
      else case iv_advance (reference_time now after_time) tr of
             None \<Rightarrow> None
           | Some tr' \<Rightarrow> Some (Some (iv_next_run_time tr'), tr'))"

definition IntervalTrigger_mark_executed :: "IntervalTrigger \<Rightarrow> IntervalTrigger" where
  "IntervalTrigger_mark_executed tr = tr\<lparr>iv_run_count := iv_run_count tr + 1\<rparr>"

definition IntervalTrigger_reset :: "IntervalTrigger \<Rightarrow> IntervalTrigger" where
  "IntervalTrigger_reset tr = tr\<lparr>iv_run_count := 0, iv_next_run_time := iv_start_time tr\<rparr>"


subsection \<open>OneTimeTrigger\<close>

record OneTimeTrigger =
  ot_run_time :: instant
  ot_executed :: bool

text \<open>
  \<open>run_at\<close> is a number of seconds or a \<open>datetime\<close>; a \<open>datetime\<close> is represented
  by the value of its \<open>timestamp()\<close>.
\<close>

datatype run_at = Seconds instant | Datetime instant

definition OneTimeTrigger_init :: "run_at \<Rightarrow> OneTimeTrigger" where
  "OneTimeTrigger_init ra =
     \<lparr> ot_run_time = (case ra of Datetime d \<Rightarrow> d | Seconds s \<Rightarrow> s), ot_executed = False \<rparr>"

definition OneTimeTrigger_get_next_run_time ::
  "OneTimeTrigger \<Rightarrow> instant \<Rightarrow> instant option \<Rightarrow> instant option \<times> OneTimeTrigger" where
  "OneTimeTrigger_get_next_run_time tr now after_time =
     (if ot_executed tr then (None, tr)
      else if ot_run_time tr > reference_time now after_time
           then (Some (ot_run_time tr), tr)
           else (Some (ot_run_time tr), tr))"

definition OneTimeTrigger_is_finished :: "OneTimeTrigger \<Rightarrow> bool" where
  "OneTimeTrigger_is_finished tr \<longleftrightarrow> ot_executed tr"

definition OneTimeTrigger_mark_executed :: "OneTimeTrigger \<Rightarrow> OneTimeTrigger" where
  "OneTimeTrigger_mark_executed tr = tr\<lparr>ot_executed := True\<rparr>"

definition OneTimeTrigger_reset :: "OneTimeTrigger \<Rightarrow> OneTimeTrigger" where
  "OneTimeTrigger_reset tr = tr\<lparr>ot_executed := False\<rparr>"


subsection \<open>CronTrigger\<close>

text \<open>
  \<open>croniter\<close> is a third-party library. Its iterator is a cursor over the occurrences
  of a cron expression: \<open>get_next\<close> moves the cursor to the first occurrence after it
  and returns that occurrence. What the library computes from the expression text and
  the time zone is taken as a parameter: a cron expression is represented by its
  occurrence function, from an instant to the first matching instant after it.
\<close>

type_synonym cron_expression = "instant \<Rightarrow> instant"

record croniter =
  ci_expression :: cron_expression
  ci_cur :: instant

definition croniter_init :: "cron_expression \<Rightarrow> instant \<Rightarrow> croniter" where
  "croniter_init expr start = \<lparr> ci_expression = expr, ci_cur = start \<rparr>"

definition croniter_get_next :: "croniter \<Rightarrow> instant \<times> croniter" where
  "croniter_get_next c = (let n = ci_expression c (ci_cur c) in (n, c\<lparr>ci_cur := n\<rparr>))"

text \<open>The expression \<open>* * * * *\<close>: every whole minute.\<close>

definition every_minute :: cron_expression where
  "every_minute t = 60 * (real_of_int \<lfloor>t / 60\<rfloor> + 1)"

record CronTrigger =
  cr_cron_expression :: cron_expression
  cr_max_runs :: "int option"
  cr_run_count :: int
  cr_timezone :: string
  cr_start_time :: instant
  cr_cron :: croniter

definition CronTrigger_init ::
  "cron_expression \<Rightarrow> int option \<Rightarrow> string \<Rightarrow> instant option \<Rightarrow> instant \<Rightarrow> CronTrigger" where
  "CronTrigger_init cron_expression max_runs timezone start_time now =
     (let st = (case start_time of None \<Rightarrow> now | Some s \<Rightarrow> s)
      in \<lparr> cr_cron_expression = cron_expression, cr_max_runs = max_runs, cr_run_count = 0,
           cr_timezone = timezone, cr_start_time = st,
           cr_cron = croniter_init cron_expression st \<rparr>)"

text \<open>
  \<open>after_time\<close> is given its default and then not used: the result is the cursor's
  next occurrence.
\<close>

definition CronTrigger_get_next_run_time ::
  "CronTrigger \<Rightarrow> instant \<Rightarrow> instant option \<Rightarrow> instant option \<times> CronTrigger" where
  "CronTrigger_get_next_run_time tr now after_time =
     (if (case cr_max_runs tr of None \<Rightarrow> False | Some m \<Rightarrow> cr_run_count tr \<ge> m)
      then (None, tr)
      else let after_time' = reference_time now after_time;
               (next_dt, c) = croniter_get_next (cr_cron tr)
           in (Some next_dt, tr\<lparr>cr_cron := c\<rparr>))"

definition CronTrigger_is_finished :: "CronTrigger \<Rightarrow> bool" where
  "CronTrigger_is_finished tr \<longleftrightarrow>
     (case cr_max_runs tr of None \<Rightarrow> False | Some m \<Rightarrow> cr_run_count tr \<ge> m)"

definition CronTrigger_mark_executed :: "CronTrigger \<Rightarrow> CronTrigger" where
  "CronTrigger_mark_executed tr = tr\<lparr>cr_run_count := cr_run_count tr + 1\<rparr>"

definition CronTrigger_reset :: "CronTrigger \<Rightarrow> CronTrigger" where
  "CronTrigger_reset tr =
     tr\<lparr>cr_run_count := 0, cr_cron := croniter_init (cr_cron_expression tr) (cr_start_time tr)\<rparr>"


subsection \<open>Trigger: the four variants behind one interface\<close>

datatype Trigger =
    Timestamp TimestampTrigger
  | Interval IntervalTrigger
  | OneTime OneTimeTrigger
  | Cron CronTrigger

fun trigger_type :: "Trigger \<Rightarrow> TriggerType" where
  "trigger_type (Timestamp t) = TIMESTAMP"
| "trigger_type (Interval t) = INTERVAL"
| "trigger_type (OneTime t) = ONE_TIME"
| "trigger_type (Cron t) = CRON"

text \<open>The outer \<open>None\<close> is a call that does not return (only the interval loop can).\<close>

fun get_next_run_time ::
  "Trigger \<Rightarrow> instant \<Rightarrow> instant option \<Rightarrow> (instant option \<times> Trigger) option" where
  "get_next_run_time (Timestamp t) now after_time =
     (case TimestampTrigger_get_next_run_time t now after_time of (r, t') \<Rightarrow> Some (r, Timestamp t'))"
| "get_next_run_time (Interval t) now after_time =
     (case IntervalTrigger_get_next_run_time t now after_time of
        None \<Rightarrow> None
      | Some (r, t') \<Rightarrow> Some (r, Interval t'))"
| "get_next_run_time (OneTime t) now after_time =
     (case OneTimeTrigger_get_next_run_time t now after_time of (r, t') \<Rightarrow> Some (r, OneTime t'))"
| "get_next_run_time (Cron t) now after_time =
     (case CronTrigger_get_next_run_time t now after_time of (r, t') \<Rightarrow> Some (r, Cron t'))"

fun is_finished :: "Trigger \<Rightarrow> bool" where
  "is_finished (Timestamp t) = TimestampTrigger_is_finished t"
| "is_finished (Interval t) = IntervalTrigger_is_finished t"
| "is_finished (OneTime t) = OneTimeTrigger_is_finished t"
| "is_finished (Cron t) = CronTrigger_is_finished t"

fun reset :: "Trigger \<Rightarrow> Trigger" where
  "reset (Timestamp t) = Timestamp (TimestampTrigger_reset t)"
| "reset (Interval t) = Interval (IntervalTrigger_reset t)"
| "reset (OneTime t) = OneTime (OneTimeTrigger_reset t)"
| "reset (Cron t) = Cron (CronTrigger_reset t)"

text \<open>
  \<open>mark_executed\<close> is not a method of the base class \<open>Trigger\<close>: the interval, one-time
  and cron classes define it, \<open>TimestampTrigger\<close> does not. \<open>hasattr_mark_executed\<close> is
  \<open>hasattr(trigger, 'mark_executed')\<close>; calling a method an object does not have raises
  \<open>AttributeError\<close>.
\<close>

fun hasattr_mark_executed :: "Trigger \<Rightarrow> bool" where
  "hasattr_mark_executed (Timestamp t) = False"
| "hasattr_mark_executed (Interval t) = True"
| "hasattr_mark_executed (OneTime t) = True"
| "hasattr_mark_executed (Cron t) = True"

fun mark_executed :: "Trigger \<Rightarrow> error + Trigger" where
  "mark_executed (Timestamp t) = Inl AttributeError"
| "mark_executed (Interval t) = Inr (Interval (IntervalTrigger_mark_executed t))"
| "mark_executed (OneTime t) = Inr (OneTime (OneTimeTrigger_mark_executed t))"
| "mark_executed (Cron t) = Inr (Cron (CronTrigger_mark_executed t))"


subsection \<open>Job\<close>

text \<open>
  The position of the loop thread inside \<open>Job._run\<close>, with the local variables that are
  live there. Each position is one step of the thread; the steps of other threads
  (\<open>pause\<close>, \<open>resume\<close>, \<open>cancel\<close>, \<open>get_status\<close>) may come between any two of them.
\<close>

datatype pc =
    LoopTest
  | CancelCheck1
  | PauseCheck
  | PauseEnter
  | PauseWait
  | PauseLeave
  | CancelCheck2
  | GetNext
  | ComputeWait instant
  | StartWait real
  | Waiting instant
  | AfterWait
  | Dispatch
  | LoopExit
  | Stopped

text \<open>
  The identifier, the work item and its arguments play no part in the scheduling and are
  left out. \<open>thread\<close> is \<open>None\<close> before \<open>start\<close>, and otherwise where the loop thread
  stands; a thread at \<open>Stopped\<close> is no longer alive. The two events are their flags.
\<close>

record Job =
  trigger :: Trigger
  status :: JobStatus
  start_time :: "instant option"
  pause_time :: "instant option"
  total_pause_duration :: real
  execution_count :: nat
  thread :: "pc option"
  cancel_event :: bool
  pause_event :: bool

definition Job_init :: "Trigger \<Rightarrow> Job" where
  "Job_init trg =
     \<lparr> trigger = trg, status = RUNNING, start_time = None, pause_time = None,
       total_pause_duration = 0, execution_count = 0, thread = None,
       cancel_event = False, pause_event = False \<rparr>"

definition is_alive :: "pc option \<Rightarrow> bool" where
  "is_alive th = (case th of None \<Rightarrow> False | Some p \<Rightarrow> p \<noteq> Stopped)"

definition start :: "instant \<Rightarrow> Job \<Rightarrow> bool \<times> Job" where
  "start now j =
     (if is_alive (thread j) then (False, j)
      else (True, j\<lparr>start_time := Some now, cancel_event := False, pause_event := False,
                    thread := Some LoopTest\<rparr>))"

definition pause :: "Job \<Rightarrow> bool \<times> Job" where
  "pause j = (if status j = RUNNING then (True, j\<lparr>pause_event := True\<rparr>) else (False, j))"

definition resume :: "Job \<Rightarrow> bool \<times> Job" where
  "resume j =
     (if status j = PAUSED \<or> pause_event j then (True, j\<lparr>pause_event := False\<rparr>)
      else (False, j))"

definition cancel :: "Job \<Rightarrow> Job" where
  "cancel j = j\<lparr>status := REMOVED, cancel_event := True, pause_event := False\<rparr>"

text \<open>Lines 97 to 105 of \<open>_run\<close>: the wait before the dispatch.\<close>

definition wait_time :: "Job \<Rightarrow> instant \<Rightarrow> instant \<Rightarrow> error + real" where
  "wait_time j next_run_time current_time =
     (if trigger_type (trigger j) = TIMESTAMP then
        (case start_time j of
           None \<Rightarrow> Inl TypeError
         | Some st \<Rightarrow>
             let elapsed_real_time = current_time - st;
                 elapsed_execution_time = elapsed_real_time - total_pause_duration j;
                 adjusted_run_time = st + (next_run_time - st) + total_pause_duration j
             in Inr (adjusted_run_time - current_time))
      else Inr (next_run_time - current_time))"

text \<open>
  Lines 116 to 130: what one dispatch does. The effects are the thread it starts and the
  calls of \<open>mark_executed\<close> it makes.
\<close>

datatype effect = StartExecutionThread | CallMarkExecuted

definition call_mark_executed :: "Trigger \<Rightarrow> error + (effect list \<times> Trigger)" where
  "call_mark_executed t =
     (if hasattr_mark_executed t then
        (case mark_executed t of Inl e \<Rightarrow> Inl e | Inr t' \<Rightarrow> Inr ([CallMarkExecuted], t'))
      else Inr ([], t))"

definition advance_timestamp_index :: "Trigger \<Rightarrow> Trigger" where
  "advance_timestamp_index t =
     (case t of
        Timestamp tt \<Rightarrow> Timestamp (tt\<lparr>ts_current_index := ts_current_index tt + 1\<rparr>)
      | _ \<Rightarrow> t)"

definition dispatch :: "Job \<Rightarrow> error + (effect list \<times> Job)" where
  "dispatch j =
     (case call_mark_executed (trigger j) of
        Inl e \<Rightarrow> Inl e
      | Inr (calls, t) \<Rightarrow>
          Inr (StartExecutionThread # calls,
               j\<lparr>execution_count := execution_count j + 1,
                 trigger := advance_timestamp_index t\<rparr>))"

text \<open>
  One step of the loop thread, with the clock reading \<open>now\<close> of the step. An exception
  is caught by the handler around the loop, which prints it and lets the thread end with
  the status as it is. \<open>None\<close> is a step that does not return.
\<close>

definition run_at_pc :: "pc \<Rightarrow> instant \<Rightarrow> Job \<Rightarrow> Job option" where
  "run_at_pc p now j =
     (case p of
        LoopTest \<Rightarrow>
          Some (j\<lparr>thread := Some (if is_finished (trigger j) then LoopExit else CancelCheck1)\<rparr>)
      | CancelCheck1 \<Rightarrow>
          Some (j\<lparr>thread := Some (if cancel_event j then LoopExit else PauseCheck)\<rparr>)
      | PauseCheck \<Rightarrow>
          Some (j\<lparr>thread := Some (if pause_event j then PauseEnter else CancelCheck2)\<rparr>)
      | PauseEnter \<Rightarrow>
          Some (if status j = RUNNING
                then j\<lparr>status := PAUSED, pause_time := Some now, thread := Some PauseWait\<rparr>
                else j\<lparr>thread := Some PauseWait\<rparr>)
      | PauseWait \<Rightarrow>
          Some (j\<lparr>thread := Some (if pause_event j \<and> \<not> cancel_event j
                                   then PauseWait else PauseLeave)\<rparr>)
      | PauseLeave \<Rightarrow>
          Some (if status j = PAUSED \<and> \<not> cancel_event j then
                  (case pause_time j of
                     None \<Rightarrow> j\<lparr>thread := Some Stopped\<rparr>
                   | Some pt \<Rightarrow>
                       j\<lparr>total_pause_duration := total_pause_duration j + (now - pt),
                         status := RUNNING, thread := Some CancelCheck2\<rparr>)
                else j\<lparr>thread := Some CancelCheck2\<rparr>)
      | CancelCheck2 \<Rightarrow>
          Some (j\<lparr>thread := Some (if cancel_event j then LoopExit else GetNext)\<rparr>)
      | GetNext \<Rightarrow>
          (case get_next_run_time (trigger j) now None of
             None \<Rightarrow> None
           | Some (None, t) \<Rightarrow> Some (j\<lparr>trigger := t, thread := Some LoopExit\<rparr>)
           | Some (Some next_run_time, t) \<Rightarrow>
               Some (j\<lparr>trigger := t, thread := Some (ComputeWait next_run_time)\<rparr>))
      | ComputeWait next_run_time \<Rightarrow>
          (case wait_time j next_run_time now of
             Inl e \<Rightarrow> Some (j\<lparr>thread := Some Stopped\<rparr>)
           | Inr w \<Rightarrow> Some (j\<lparr>thread := Some (if w > 0 then StartWait w else AfterWait)\<rparr>))
      | StartWait w \<Rightarrow>
          Some (j\<lparr>thread := Some (Waiting (now + w))\<rparr>)
      | Waiting end_wait_time \<Rightarrow>
          Some (j\<lparr>thread := Some (if now < end_wait_time \<and> \<not> cancel_event j \<and> \<not> pause_event j
                                   then Waiting end_wait_time else AfterWait)\<rparr>)
      | AfterWait \<Rightarrow>
          Some (j\<lparr>thread := Some (if cancel_event j \<or> pause_event j then LoopTest else Dispatch)\<rparr>)
      | Dispatch \<Rightarrow>
          (case dispatch j of
             Inl e \<Rightarrow> Some (j\<lparr>thread := Some Stopped\<rparr>)
           | Inr (effects, j') \<Rightarrow> Some (j'\<lparr>thread := Some LoopTest\<rparr>))
      | LoopExit \<Rightarrow>
          Some (if status j \<noteq> REMOVED
                then j\<lparr>status := COMPLETED, thread := Some Stopped\<rparr>
                else j\<lparr>thread := Some Stopped\<rparr>)
      | Stopped \<Rightarrow> Some j)"

definition run_step :: "instant \<Rightarrow> Job \<Rightarrow> Job option" where
  "run_step now j = (case thread j of None \<Rightarrow> Some j | Some p \<Rightarrow> run_at_pc p now j)"

text \<open>
  \<open>get_status\<close> reads the clock once itself (\<open>now\<close>) and once more inside the trigger's
  \<open>get_next_run_time\<close> (\<open>now'\<close>), which moves the trigger's cursor.
\<close>

record status_snapshot =
  snap_status :: JobStatus
  snap_trigger_type :: TriggerType
  snap_execution_count :: nat
  snap_elapsed_time_ms :: real
  snap_next_run_time :: "instant option"
  snap_is_finished :: bool

definition get_status :: "instant \<Rightarrow> instant \<Rightarrow> Job \<Rightarrow> (status_snapshot \<times> Job) option" where
  "get_status now now' j =
     (let elapsed_time =
            (case start_time j of
               None \<Rightarrow> 0
             | Some st \<Rightarrow> if st = 0 then 0 else (now - st - total_pause_duration j) * 1000)
      in case get_next_run_time (trigger j) now' None of
           None \<Rightarrow> None
         | Some (next_run_time, t) \<Rightarrow>
             Some (\<lparr> snap_status = status j, snap_trigger_type = trigger_type t,
                      snap_execution_count = execution_count j,
                      snap_elapsed_time_ms = elapsed_time,
                      snap_next_run_time = next_run_time,
                      snap_is_finished = is_finished t \<rparr>,
                   j\<lparr>trigger := t\<rparr>))"

text \<open>
  The job as a transition system: a step of the loop thread or a call of a public
  operation by another thread. \<open>None\<close> is an action that does not return.
\<close>

datatype action =
    Start instant
  | Pause
  | Resume
  | Cancel
  | GetStatus instant instant
  | LoopStep instant

fun perform :: "action \<Rightarrow> Job \<Rightarrow> Job option" where
  "perform (Start now) j = Some (snd (start now j))"
| "perform Pause j = Some (snd (pause j))"
| "perform Resume j = Some (snd (resume j))"
| "perform Cancel j = Some (cancel j)"
| "perform (GetStatus now now') j = map_option snd (get_status now now' j)"
| "perform (LoopStep now) j = run_step now j"

fun perform_all :: "action list \<Rightarrow> Job \<Rightarrow> Job option" where
  "perform_all [] j = Some j"
| "perform_all (a # as) j = (case perform a j of None \<Rightarrow> None | Some j' \<Rightarrow> perform_all as j')"

text \<open>
  Calls on a trigger, for statements about sequences of them: \<open>get_next_run_time\<close> with
  a clock reading and an optional reference time, \<open>mark_executed\<close>, and the cursor step
  the job makes for a timestamp trigger after a dispatch.
\<close>

datatype trigger_call =
    GetNextRunTime instant "instant option"
  | MarkExecuted
  | AdvanceIndex

fun call :: "trigger_call \<Rightarrow> Trigger \<Rightarrow> Trigger option" where
  "call (GetNextRunTime now after_time) t = map_option snd (get_next_run_time t now after_time)"
| "call MarkExecuted t = (case mark_executed t of Inl e \<Rightarrow> None | Inr t' \<Rightarrow> Some t')"
| "call AdvanceIndex t = Some (advance_timestamp_index t)"

fun calls :: "trigger_call list \<Rightarrow> Trigger \<Rightarrow> Trigger option" where
  "calls [] t = Some t"
| "calls (c # cs) t = (case call c t of None \<Rightarrow> None | Some t' \<Rightarrow> calls cs t')"

text \<open>
  The configuration a trigger is constructed from, as the scheduler's \<open>add_*_job\<close>
  operations pass it on, and the construction at the clock reading \<open>now\<close>.
\<close>

datatype trigger_config =
    TimestampConfig "int list"
  | IntervalConfig real "int option" "instant option"
  | OneTimeConfig run_at
  | CronConfig cron_expression "int option" string "instant option"

fun construct :: "trigger_config \<Rightarrow> instant \<Rightarrow> Trigger" where
  "construct (TimestampConfig timestamps) now = Timestamp (TimestampTrigger_init timestamps)"
| "construct (IntervalConfig interval_seconds max_runs start_at) now =
     Interval (IntervalTrigger_init interval_seconds max_runs start_at now)"
| "construct (OneTimeConfig ra) now = OneTime (OneTimeTrigger_init ra)"
| "construct (CronConfig cron_expression max_runs timezone start_at) now =
     Cron (CronTrigger_init cron_expression max_runs timezone start_at now)"


subsection \<open>Concrete jobs and triggers\<close>

definition demo_timestamp_job :: Job where
  "demo_timestamp_job =
     (Job_init (Timestamp (TimestampTrigger_init [300, 0, 100])))
       \<lparr>start_time := Some 0, total_pause_duration := 2\<rparr>"

definition demo_job :: Job where
  "demo_job = Job_init (OneTime (OneTimeTrigger_init (Seconds 10)))"


definition paused_job :: Job where
  "paused_job =
     the (perform_all [Start 0, LoopStep 0, LoopStep 0, Pause, LoopStep 1, LoopStep 1] demo_job)"

definition cancelled_run :: "action list" where
  "cancelled_run =
     [LoopStep 5, Resume, LoopStep 5, Pause, LoopStep 6, LoopStep 6, Start 7, LoopStep 7]"

definition demo_cron :: CronTrigger where
  "demo_cron = CronTrigger_init every_minute None ''UTC'' (Some 0) 0"


definition demo_interval :: IntervalTrigger where
  "demo_interval = IntervalTrigger_init 5 (Some 3) (Some 100) 7"


definition demo_config :: trigger_config where
  "demo_config = IntervalConfig 5 (Some 3) (Some 100)"

definition interval_history :: "trigger_call list" where
  "interval_history = [GetNextRunTime 0 (Some 112), MarkExecuted, AdvanceIndex]"









section \<open>Properties\<close>

subsection \<open>The wait before a dispatch\<close>










subsection \<open>The one-time trigger\<close>

text \<open>
  C5. A one-time trigger starts with \<open>mark_executed\<close> not called. As long as it has not
  been called, \<open>get_next_run_time\<close> returns the target instant for every reference time,
  also one after the target, leaves the trigger as it is, and the trigger is not
  finished. After \<open>mark_executed\<close>, \<open>get_next_run_time\<close> returns none and \<open>is_finished\<close>
  is true.
\<close>

theorem onetime_target_until_marked:
  "\<not> ot_executed (OneTimeTrigger_init ra)
   \<and> (\<not> ot_executed tr \<longrightarrow>
        OneTimeTrigger_get_next_run_time tr now after_time = (Some (ot_run_time tr), tr)
        \<and> \<not> OneTimeTrigger_is_finished tr)
   \<and> OneTimeTrigger_get_next_run_time (OneTimeTrigger_mark_executed tr) now after_time
        = (None, OneTimeTrigger_mark_executed tr)
   \<and> OneTimeTrigger_is_finished (OneTimeTrigger_mark_executed tr)"
  by (simp add: OneTimeTrigger_init_def OneTimeTrigger_get_next_run_time_def
      OneTimeTrigger_is_finished_def OneTimeTrigger_mark_executed_def)

theorem onetime_target_until_marked_witness:
  "\<not> ot_executed (OneTimeTrigger_init (Seconds 100))
   \<and> OneTimeTrigger_get_next_run_time (OneTimeTrigger_init (Seconds 100)) 500 (Some 200)
       = (Some 100, OneTimeTrigger_init (Seconds 100))
   \<and> fst (OneTimeTrigger_get_next_run_time
             (OneTimeTrigger_mark_executed (OneTimeTrigger_init (Seconds 100))) 500 (Some 200)) = None"
  using onetime_target_until_marked
          [of "Seconds 100" "OneTimeTrigger_init (Seconds 100)" 500 "Some 200"]
  by (simp add: OneTimeTrigger_init_def)


subsection \<open>Pause, resume and cancel\<close>

text \<open>
  C6. \<open>pause\<close> returns true exactly when the status is RUNNING, and then sets the pause
  signal and nothing else; otherwise it returns false and changes nothing. \<open>resume\<close>
  returns true exactly when the status is PAUSED or the pause signal is set, and then
  clears the pause signal and nothing else; otherwise it returns false and changes
  nothing. \<open>cancel\<close> has no failing branch: it sets the status to REMOVED, sets the cancel
  signal and clears the pause signal, whatever the state.
\<close>

theorem pause_resume_cancel:
  "(fst (pause j) \<longleftrightarrow> status j = RUNNING)
   \<and> (status j = RUNNING \<longrightarrow> snd (pause j) = j\<lparr>pause_event := True\<rparr>)
   \<and> (status j \<noteq> RUNNING \<longrightarrow> snd (pause j) = j)
   \<and> (fst (resume j) \<longleftrightarrow> status j = PAUSED \<or> pause_event j)
   \<and> (status j = PAUSED \<or> pause_event j \<longrightarrow> snd (resume j) = j\<lparr>pause_event := False\<rparr>)
   \<and> (\<not> (status j = PAUSED \<or> pause_event j) \<longrightarrow> snd (resume j) = j)
   \<and> status (cancel j) = REMOVED \<and> cancel_event (cancel j) \<and> \<not> pause_event (cancel j)
   \<and> cancel j = j\<lparr>status := REMOVED, cancel_event := True, pause_event := False\<rparr>"
  by (simp add: pause_def resume_def cancel_def)

theorem pause_resume_cancel_witness:
  "status demo_job = RUNNING \<and> fst (pause demo_job) \<and> pause_event (snd (pause demo_job))
   \<and> status (cancel demo_job) \<noteq> RUNNING \<and> \<not> fst (pause (cancel demo_job))
   \<and> snd (pause (cancel demo_job)) = cancel demo_job
   \<and> pause_event (snd (pause demo_job)) \<and> fst (resume (snd (pause demo_job)))
   \<and> \<not> pause_event (snd (resume (snd (pause demo_job))))
   \<and> \<not> (status demo_job = PAUSED \<or> pause_event demo_job) \<and> \<not> fst (resume demo_job)
   \<and> snd (resume demo_job) = demo_job"
  using pause_resume_cancel [of demo_job] pause_resume_cancel [of "cancel demo_job"]
        pause_resume_cancel [of "snd (pause demo_job)"]
  by (simp add: demo_job_def Job_init_def cancel_def)


subsection \<open>REMOVED is terminal\<close>

lemma run_at_pc_keeps_removed:
  "status j = REMOVED \<Longrightarrow> run_at_pc p now j = Some j' \<Longrightarrow> status j' = REMOVED"
  by (cases p)
     (auto simp: run_at_pc_def dispatch_def split: option.splits sum.splits prod.splits if_splits)

lemma perform_keeps_removed:
  "status j = REMOVED \<Longrightarrow> perform a j = Some j' \<Longrightarrow> status j' = REMOVED"
  by (cases a)
     (auto simp: start_def pause_def resume_def cancel_def get_status_def run_step_def Let_def
           dest: run_at_pc_keeps_removed split: option.splits if_splits prod.splits)

lemma perform_all_keeps_removed:
  "status j = REMOVED \<Longrightarrow> perform_all as j = Some j' \<Longrightarrow> status j' = REMOVED"
proof (induction as arbitrary: j)
  case Nil
  then show ?case by simp
next
  case (Cons a as)
  then show ?case
    by (auto split: option.splits dest: perform_keeps_removed)
qed

text \<open>
  C7. \<open>cancel\<close> sets the status to REMOVED, and after it no sequence of steps of the
  execution loop and of public operations (\<open>start\<close>, \<open>pause\<close>, \<open>resume\<close>, \<open>cancel\<close>,
  \<open>get_status\<close>), in any interleaving, leads to a state with another status. The
  sequences are the ones whose actions all return; an action that does not return
  changes no status.
\<close>

theorem removed_is_terminal:
  "status (cancel j) = REMOVED
   \<and> (\<forall>as j'. perform_all as (cancel j) = Some j' \<longrightarrow> status j' = REMOVED)"
  using perform_all_keeps_removed [of "cancel j"] by (simp add: cancel_def)

lemmas job_eval_defs =
  paused_job_def demo_job_def Job_init_def start_def run_step_def run_at_pc_def pause_def
  resume_def cancel_def OneTimeTrigger_init_def OneTimeTrigger_is_finished_def is_alive_def
  cancelled_run_def

theorem removed_is_terminal_witness:
  "status paused_job = PAUSED
   \<and> perform_all cancelled_run (cancel paused_job) \<noteq> None
   \<and> thread (the (perform_all cancelled_run (cancel paused_job))) = Some CancelCheck1
   \<and> status (the (perform_all cancelled_run (cancel paused_job))) = REMOVED"
proof -
  have ne: "perform_all cancelled_run (cancel paused_job) \<noteq> None"
    by (simp add: job_eval_defs)
  then have run: "perform_all cancelled_run (cancel paused_job)
                  = Some (the (perform_all cancelled_run (cancel paused_job)))"
    by simp
  have "status (the (perform_all cancelled_run (cancel paused_job))) = REMOVED"
    using removed_is_terminal [of paused_job] run by blast
  moreover have "status paused_job = PAUSED"
    by (simp add: job_eval_defs)
  moreover have "thread (the (perform_all cancelled_run (cancel paused_job))) = Some CancelCheck1"
    by (simp add: job_eval_defs)
  ultimately show ?thesis using ne by blast
qed


subsection \<open>mark_executed and the dispatch\<close>

text \<open>
  C8, as the claim states it, fails: a timestamp trigger has no \<open>mark_executed\<close>
  (calling it raises \<open>AttributeError\<close>), and a dispatch of a job with a timestamp trigger
  starts the execution thread and makes no call of \<open>mark_executed\<close>.
\<close>

theorem timestamp_trigger_lacks_mark_executed:
  "\<not> hasattr_mark_executed (Timestamp (TimestampTrigger_init [0, 100, 300]))
   \<and> mark_executed (Timestamp (TimestampTrigger_init [0, 100, 300])) = Inl AttributeError
   \<and> map_sum id fst (dispatch (Job_init (Timestamp (TimestampTrigger_init [0, 100, 300]))))
       = Inr [StartExecutionThread]"
  by (simp add: dispatch_def call_mark_executed_def Job_init_def advance_timestamp_index_def)

text \<open>
  C8, amended. The interval, one-time and cron triggers provide \<open>mark_executed\<close>
  (interval and cron: the run count goes up by one; one-time: the executed flag is set);
  the timestamp trigger provides none. One dispatch of a job whose trigger provides
  \<open>mark_executed\<close> starts one execution thread, calls \<open>mark_executed\<close> exactly once and
  counts one execution; one dispatch of a job with a timestamp trigger starts one
  execution thread, calls no \<open>mark_executed\<close>, counts one execution and moves the
  trigger's cursor forward by one.
\<close>

theorem mark_executed_per_dispatch:
  "hasattr_mark_executed (Interval it) \<and> hasattr_mark_executed (OneTime ot)
   \<and> hasattr_mark_executed (Cron ct) \<and> \<not> hasattr_mark_executed (Timestamp tt)
   \<and> mark_executed (Interval it) = Inr (Interval (it\<lparr>iv_run_count := iv_run_count it + 1\<rparr>))
   \<and> mark_executed (OneTime ot) = Inr (OneTime (ot\<lparr>ot_executed := True\<rparr>))
   \<and> mark_executed (Cron ct) = Inr (Cron (ct\<lparr>cr_run_count := cr_run_count ct + 1\<rparr>))
   \<and> (hasattr_mark_executed (trigger j) \<longrightarrow>
        (\<exists>t'. mark_executed (trigger j) = Inr t'
           \<and> dispatch j = Inr ([StartExecutionThread, CallMarkExecuted],
                               j\<lparr>execution_count := execution_count j + 1, trigger := t'\<rparr>)))
   \<and> (trigger j = Timestamp tt \<longrightarrow>
        dispatch j = Inr ([StartExecutionThread],
                          j\<lparr>execution_count := execution_count j + 1,
                            trigger := Timestamp (tt\<lparr>ts_current_index := ts_current_index tt + 1\<rparr>)\<rparr>))"
  by (cases "trigger j")
     (simp_all add: dispatch_def call_mark_executed_def advance_timestamp_index_def
        IntervalTrigger_mark_executed_def OneTimeTrigger_mark_executed_def
        CronTrigger_mark_executed_def)

theorem mark_executed_per_dispatch_witness:
  "hasattr_mark_executed (trigger demo_job)
   \<and> map_sum id fst (dispatch demo_job) = Inr [StartExecutionThread, CallMarkExecuted]
   \<and> trigger demo_timestamp_job = Timestamp (TimestampTrigger_init [300, 0, 100])
   \<and> map_sum id fst (dispatch demo_timestamp_job) = Inr [StartExecutionThread]"
  using mark_executed_per_dispatch [where j = demo_job]
        mark_executed_per_dispatch
          [where j = demo_timestamp_job and tt = "TimestampTrigger_init [300, 0, 100]"]
  by (auto simp: demo_job_def demo_timestamp_job_def Job_init_def)


subsection \<open>The cron trigger\<close>

text \<open>
  C3. The claim asks that a second call of \<open>get_next_run_time\<close> at the same reference
  time, with no \<open>mark_executed\<close> between, returns the same instant. On the trigger of
  the expression \<open>* * * * *\<close> started at instant 0 the first call with reference time 0
  returns 60 and the second returns 120: each call moves the cron cursor.
\<close>

theorem cron_second_call_returns_later_instant:
  "fst (CronTrigger_get_next_run_time demo_cron 0 (Some 0)) = Some 60
   \<and> fst (CronTrigger_get_next_run_time
            (snd (CronTrigger_get_next_run_time demo_cron 0 (Some 0))) 0 (Some 0)) = Some 120"
  by (simp add: demo_cron_def CronTrigger_init_def CronTrigger_get_next_run_time_def
      croniter_init_def croniter_get_next_def every_minute_def Let_def)

text \<open>
  The same for every expression: when occurrences lie strictly after the cursor, two
  calls in a row on an unfinished trigger return different instants.
\<close>

lemma cron_calls_never_repeat:
  assumes "\<forall>t. t < cr_cron_expression tr t" "ci_expression (cr_cron tr) = cr_cron_expression tr"
    and "\<not> CronTrigger_is_finished tr"
    and "CronTrigger_get_next_run_time tr now a = (r1, tr1)"
    and "CronTrigger_get_next_run_time tr1 now a = (r2, tr2)"
  shows "\<exists>v1 v2. r1 = Some v1 \<and> r2 = Some v2 \<and> v1 < v2"
  using assms
  by (auto simp: CronTrigger_get_next_run_time_def CronTrigger_is_finished_def
       croniter_get_next_def Let_def split: option.splits)


subsection \<open>The interval trigger\<close>







lemma demo_interval_eval:
  "iv_advance 112 demo_interval = Some (demo_interval\<lparr>iv_next_run_time := 115\<rparr>)"
  unfolding demo_interval_def IntervalTrigger_init_def
  by (subst iv_advance.simps, simp)+


lemma demo_interval_unfinished: "\<not> IntervalTrigger_is_finished demo_interval"
  by (simp add: demo_interval_def IntervalTrigger_init_def IntervalTrigger_is_finished_def)

lemma demo_interval_get_next:
  "IntervalTrigger_get_next_run_time demo_interval 0 (Some 112)
     = Some (Some 115, demo_interval\<lparr>iv_next_run_time := 115\<rparr>)"
  using demo_interval_unfinished
  by (simp add: IntervalTrigger_get_next_run_time_def IntervalTrigger_is_finished_def
      reference_time_def demo_interval_eval)






subsection \<open>Reset\<close>

lemma ts_scan_only_index:
  "ts_scan a tr = (r, tr') \<Longrightarrow> \<exists>i. tr' = tr\<lparr>ts_current_index := i\<rparr>"
proof (induction a tr rule: ts_scan.induct)
  case (1 a tr)
  show ?case
  proof (cases "ts_current_index tr < length (ts_timestamps tr)
                \<and> \<not> real_of_int (ts_timestamps tr ! ts_current_index tr) > a")
    case True
    with "1.prems" have "ts_scan a (tr\<lparr>ts_current_index := ts_current_index tr + 1\<rparr>) = (r, tr')"
      by (subst (asm) ts_scan.simps) simp
    with True "1.IH" obtain i where
      "tr' = tr\<lparr>ts_current_index := ts_current_index tr + 1\<rparr>\<lparr>ts_current_index := i\<rparr>"
      by blast
    then have "tr' = tr\<lparr>ts_current_index := i\<rparr>" by simp
    then show ?thesis ..
  next
    case False
    with "1.prems" have "tr' = tr"
      by (subst (asm) ts_scan.simps) (auto split: if_splits)
    then have "tr' = tr\<lparr>ts_current_index := ts_current_index tr\<rparr>" by simp
    then show ?thesis ..
  qed
qed

lemma iv_advance_only_anchor:
  "iv_advance a tr = Some tr' \<Longrightarrow> \<exists>x. tr' = tr\<lparr>iv_next_run_time := x\<rparr>"
proof (induction rule: iv_advance.raw_induct[rotated 1, consumes 1])
  case (1 iv_advance a tr tr')
  show ?case
  proof (cases "iv_next_run_time tr \<le> a")
    case True
    with 1 obtain x where
      "tr' = tr\<lparr>iv_next_run_time := iv_next_run_time tr + iv_interval_seconds tr\<rparr>
               \<lparr>iv_next_run_time := x\<rparr>"
      by fastforce
    then have "tr' = tr\<lparr>iv_next_run_time := x\<rparr>" by simp
    then show ?thesis ..
  next
    case False
    with 1 have "tr' = tr\<lparr>iv_next_run_time := iv_next_run_time tr\<rparr>" by simp
    then show ?thesis ..
  qed
qed


lemma ts_get_next_reset:
  "TimestampTrigger_get_next_run_time tt now a = (r, tt')
   \<Longrightarrow> TimestampTrigger_reset tt' = TimestampTrigger_reset tt"
proof -
  assume "TimestampTrigger_get_next_run_time tt now a = (r, tt')"
  then obtain i where "tt' = tt\<lparr>ts_current_index := i\<rparr>"
    unfolding TimestampTrigger_get_next_run_time_def using ts_scan_only_index by blast
  then show ?thesis by (simp add: TimestampTrigger_reset_def)
qed

lemma iv_get_next_reset:
  "IntervalTrigger_get_next_run_time it now a = Some (r, it')
   \<Longrightarrow> IntervalTrigger_reset it' = IntervalTrigger_reset it"
proof -
  assume h: "IntervalTrigger_get_next_run_time it now a = Some (r, it')"
  show ?thesis
  proof (cases "IntervalTrigger_is_finished it")
    case True
    with h have "it' = it"
      by (simp add: IntervalTrigger_get_next_run_time_def IntervalTrigger_is_finished_def)
    then show ?thesis by simp
  next
    case False
    with h have "iv_advance (reference_time now a) it = Some it'"
      by (auto simp: IntervalTrigger_get_next_run_time_def IntervalTrigger_is_finished_def
          split: option.splits)
    then obtain x where "it' = it\<lparr>iv_next_run_time := x\<rparr>"
      using iv_advance_only_anchor by blast
    then show ?thesis by (simp add: IntervalTrigger_reset_def)
  qed
qed

lemma cron_get_next_reset:
  "CronTrigger_get_next_run_time ct now a = (r, ct')
   \<Longrightarrow> CronTrigger_reset ct' = CronTrigger_reset ct"
  by (auto simp: CronTrigger_get_next_run_time_def CronTrigger_reset_def croniter_get_next_def
      Let_def split: if_splits)

lemma onetime_get_next_reset:
  "OneTimeTrigger_get_next_run_time ot now a = (r, ot')
   \<Longrightarrow> OneTimeTrigger_reset ot' = OneTimeTrigger_reset ot"
  by (auto simp: OneTimeTrigger_get_next_run_time_def split: if_splits)

lemma call_reset: "call c t = Some t' \<Longrightarrow> reset t' = reset t"
proof (cases c)
  case (GetNextRunTime now a)
  assume c: "call c t = Some t'"
  show ?thesis
  proof (cases t)
    case (Timestamp tt)
    with c GetNextRunTime show ?thesis
      by (auto split: prod.splits dest: ts_get_next_reset)
  next
    case (Interval it)
    with c GetNextRunTime show ?thesis
      by (auto split: option.splits prod.splits dest: iv_get_next_reset)
  next
    case (OneTime ot)
    with c GetNextRunTime show ?thesis
      by (auto split: prod.splits dest: onetime_get_next_reset)
  next
    case (Cron ct)
    with c GetNextRunTime show ?thesis
      by (auto split: prod.splits dest: cron_get_next_reset)
  qed
next
  case MarkExecuted
  assume "call c t = Some t'"
  with MarkExecuted show ?thesis
    by (cases t)
       (auto simp: IntervalTrigger_mark_executed_def IntervalTrigger_reset_def
          OneTimeTrigger_mark_executed_def OneTimeTrigger_reset_def
          CronTrigger_mark_executed_def CronTrigger_reset_def)
next
  case AdvanceIndex
  assume "call c t = Some t'"
  with AdvanceIndex show ?thesis
    by (cases t) (auto simp: advance_timestamp_index_def TimestampTrigger_reset_def)
qed

lemma calls_reset: "calls cs t = Some t' \<Longrightarrow> reset t' = reset t"
proof (induction cs arbitrary: t)
  case Nil
  then show ?case by simp
next
  case (Cons c cs)
  then show ?case
    by (auto split: option.splits dest: call_reset)
qed

lemma reset_construct: "reset (construct cfg now) = construct cfg now"
  by (cases cfg)
     (simp_all add: TimestampTrigger_init_def TimestampTrigger_reset_def
        IntervalTrigger_init_def IntervalTrigger_reset_def Let_def
        OneTimeTrigger_init_def OneTimeTrigger_reset_def
        CronTrigger_init_def CronTrigger_reset_def)

text \<open>
  C9. For every trigger variant and configuration, and every sequence of
  \<open>get_next_run_time\<close> and \<open>mark_executed\<close> calls (and of the cursor steps the job
  makes for a timestamp trigger) that the trigger has gone through since its
  construction, \<open>reset\<close> gives back the state the trigger was constructed in: the
  timestamp cursor, the interval run count and anchor, the one-time executed flag, the
  cron run count and cron cursor are the initial ones, and the configuration is
  unchanged.
\<close>

theorem reset_restores_initial_state:
  "calls cs (construct cfg now) = Some t \<Longrightarrow> reset t = construct cfg now"
  using calls_reset [of cs "construct cfg now" t] by (simp add: reset_construct)

theorem reset_restores_initial_state_witness:
  "calls interval_history (construct demo_config 7)
     = Some (Interval (demo_interval\<lparr>iv_run_count := 1, iv_next_run_time := 115\<rparr>))
   \<and> reset (Interval (demo_interval\<lparr>iv_run_count := 1, iv_next_run_time := 115\<rparr>))
     = construct demo_config 7"
proof -
  have init: "construct demo_config 7 = Interval demo_interval"
    by (simp add: demo_config_def demo_interval_def)
  have run: "calls interval_history (construct demo_config 7)
     = Some (Interval (demo_interval\<lparr>iv_run_count := 1, iv_next_run_time := 115\<rparr>))"
    by (simp add: init interval_history_def demo_interval_get_next
        IntervalTrigger_mark_executed_def advance_timestamp_index_def)
       (simp add: demo_interval_def IntervalTrigger_init_def)
  from reset_restores_initial_state [OF run] run show ?thesis by simp
qed


subsection \<open>The timestamp trigger\<close>



lemma TimestampTrigger_init_sorted: "sorted (ts_timestamps (TimestampTrigger_init timestamps))"
  by (simp add: TimestampTrigger_init_def)






end
